theory Spec2Isabelle
  imports Complex_Main "HOL-Library.Log_Nat"
begin

section \<open>ItemService: purchase, creation and lookup of placed items\<close>

text \<open>
  A shallow embedding of \<^verbatim>\<open>src/ServerScriptService/Services/Item/ItemService.ts\<close>.
  The service mutates a \<open>UserComponent\<close> (balances, placed items) and the Roblox data
  model (instances under \<open>Workspace\<close>); both are passed in and returned explicitly.
  Coordinates are modelled as \<open>real\<close>. Currency amounts are Luau numbers, that is
  doubles; the model keeps the finite integer-valued ones as \<open>int\<close>, compares them
  exactly, as line 41 does, and rounds the difference that line 44 stores, as the
  subtraction of doubles does (\<open>numberSub\<close> below).
\<close>

subsection \<open>Values of the engine\<close>

datatype Vector3 = Vector3 (X: real) (Y: real) (Z: real)

text \<open>A coordinate frame: a position and the three axes of its rotation.\<close>

datatype CFrame = CFrame (Position: Vector3) (XVector: Vector3) (YVector: Vector3) (ZVector: Vector3)

text \<open>\<^verbatim>\<open>new CFrame(pos)\<close>: the frame at \<open>pos\<close> with no rotation.\<close>

definition CFrame_new :: "Vector3 \<Rightarrow> CFrame" where
  "CFrame_new pos = CFrame pos (Vector3 1 0 0) (Vector3 0 1 0) (Vector3 0 0 1)"

datatype AttributeValue = NumberValue int | StringValue string

datatype ParentRef = NoParent | Workspace

record BasePart =
  Size :: Vector3

text \<open>
  A \<open>Model\<close> instance. The constructor of the service asserts, for every register, that
  the model exists and has a primary part (lines 21-22), so both are plain fields here.
\<close>

record Model =
  Name :: string
  Parent :: ParentRef
  Pivot :: CFrame
  PrimaryPart :: BasePart
  Attributes :: "string \<rightharpoonup> AttributeValue"
  Tags :: "string list"

type_synonym InstanceRef = nat

text \<open>Every call of the engine that the service makes on an instance, in program order.\<close>

datatype Call =
    CallClone InstanceRef
  | CallPivotTo InstanceRef CFrame
  | CallSetAttribute InstanceRef string AttributeValue
  | CallSetName InstanceRef string
  | CallSetParent InstanceRef ParentRef
  | CallAddTag InstanceRef string
  | CallGetComponent InstanceRef

text \<open>
  The data model: a store of instances addressed by reference, the next free reference,
  and the log of calls made so far.
\<close>

record World =
  objects :: "InstanceRef \<rightharpoonup> Model"
  nextRef :: InstanceRef
  calls :: "Call list"

subsection \<open>Enums, errors and results\<close>

text \<open>
  Modelled from the spec: the enums \<open>PricingExchangeType\<close>, \<open>GenericError\<close>, \<open>Currency\<close>
  and \<open>CollectionTag\<close> are imported from files that are not under src/. Only the members
  that the service names are needed; \<open>Currency\<close> is a symmetric (string) enum whose
  members are interpolated into the attribute name \<^verbatim>\<open>Balance_${currency}\<close>.
\<close>

datatype PricingExchangeType = BUY | SELL

datatype GenericError = NOT_FOUND | FORBIDDEN

type_synonym Currency = string

definition CollectionTag_ITEM :: string where
  "CollectionTag_ITEM = ''ITEM''"

text \<open>\<open>Result\<close> of rust-classes, and the two ways a Lua call can end.\<close>

datatype ('a, 'e) Result = Result_ok 'a | Result_err 'e

datatype 'a Completion = Returns 'a | Throws string

subsection \<open>Components and the registry\<close>

record ItemAttributes =
  User :: int
  ItemInstanceUUID :: string
  ItemRegisterUUID :: string

record ItemComponent =
  "instance" :: InstanceRef
  attributes :: ItemAttributes

text \<open>
  The user: \<open>Balance u c\<close> is \<^verbatim>\<open>user.attributes[`Balance_${c}`]\<close>, \<open>UserId u\<close> is
  \<^verbatim>\<open>user.instance.UserId\<close>, \<open>PlacedItems u\<close> is the \<open>Map\<close> \<^verbatim>\<open>user.PlacedItems\<close>.
\<close>

record UserComponent =
  UserId :: int
  Balance :: "Currency \<Rightarrow> int"
  PlacedItems :: "string \<rightharpoonup> ItemComponent"

record Register =
  model :: Model
  price :: "PricingExchangeType \<rightharpoonup> (Currency \<rightharpoonup> int)"

text \<open>
  What the service reads from its surroundings: the table \<open>ItemRegistry\<close>, the members
  of the \<open>Currency\<close> enum as \<open>getSymmetricEnumMembers(Currency)\<close> lists them,
  \<open>ItemMovementService.AdjustCFrame\<close>, and whether Flamework has constructed an
  \<open>ItemComponent\<close> for an instance in a given state of the data model.
\<close>

record Dependencies =
  ItemRegistry :: "string \<rightharpoonup> Register"
  Currencies :: "Currency list"
  AdjustCFrame :: "CFrame \<Rightarrow> CFrame"
  hasComponent :: "World \<Rightarrow> InstanceRef \<Rightarrow> bool"

text \<open>
  Modelled from the spec: \<open>Components.getComponent\<close> of Flamework is not under src/.
  The binder yields a handle or nothing; a handle refers to the instance it was asked
  for and carries that instance's identifying attributes (owner id, instance id,
  template id), which must all be present with their types.
\<close>

definition readAttributes :: "Model \<Rightarrow> ItemAttributes option" where
  "readAttributes m =
     (case (Attributes m ''User'', Attributes m ''ItemInstanceUUID'', Attributes m ''ItemRegisterUUID'') of
        (Some (NumberValue u), Some (StringValue i), Some (StringValue r)) \<Rightarrow>
          Some \<lparr>User = u, ItemInstanceUUID = i, ItemRegisterUUID = r\<rparr>
      | _ \<Rightarrow> None)"

definition getComponent :: "Dependencies \<Rightarrow> World \<Rightarrow> InstanceRef \<Rightarrow> ItemComponent option" where
  "getComponent deps w r =
     (if hasComponent deps w r then
        (case objects w r of
           None \<Rightarrow> None
         | Some m \<Rightarrow>
             (case readAttributes m of
                None \<Rightarrow> None
              | Some a \<Rightarrow> Some \<lparr>instance = r, attributes = a\<rparr>))
      else None)"

subsection \<open>Calls on instances\<close>

definition logCall :: "Call \<Rightarrow> World \<Rightarrow> World" where
  "logCall c w = w\<lparr>calls := calls w @ [c]\<rparr>"

definition updateObject :: "InstanceRef \<Rightarrow> (Model \<Rightarrow> Model) \<Rightarrow> World \<Rightarrow> World" where
  "updateObject r f w =
     (case objects w r of
        None \<Rightarrow> w
      | Some m \<Rightarrow> w\<lparr>objects := (objects w)(r \<mapsto> f m)\<rparr>)"

text \<open>\<^verbatim>\<open>model.Clone()\<close>: a fresh instance with the same properties and no parent.\<close>

definition Clone :: "Model \<Rightarrow> World \<Rightarrow> InstanceRef \<times> World" where
  "Clone m w =
     (let r = nextRef w in
      (r, logCall (CallClone r)
            (w\<lparr>objects := (objects w)(r \<mapsto> m\<lparr>Parent := NoParent\<rparr>), nextRef := Suc r\<rparr>)))"

definition PivotTo :: "InstanceRef \<Rightarrow> CFrame \<Rightarrow> World \<Rightarrow> World" where
  "PivotTo r cf w = logCall (CallPivotTo r cf) (updateObject r (\<lambda>m. m\<lparr>Pivot := cf\<rparr>) w)"

definition SetAttribute :: "InstanceRef \<Rightarrow> string \<Rightarrow> AttributeValue \<Rightarrow> World \<Rightarrow> World" where
  "SetAttribute r k v w =
     logCall (CallSetAttribute r k v) (updateObject r (\<lambda>m. m\<lparr>Attributes := (Attributes m)(k \<mapsto> v)\<rparr>) w)"

definition SetName :: "InstanceRef \<Rightarrow> string \<Rightarrow> World \<Rightarrow> World" where
  "SetName r n w = logCall (CallSetName r n) (updateObject r (\<lambda>m. m\<lparr>Name := n\<rparr>) w)"

definition SetParent :: "InstanceRef \<Rightarrow> ParentRef \<Rightarrow> World \<Rightarrow> World" where
  "SetParent r p w = logCall (CallSetParent r p) (updateObject r (\<lambda>m. m\<lparr>Parent := p\<rparr>) w)"

definition AddTag :: "InstanceRef \<Rightarrow> string \<Rightarrow> World \<Rightarrow> World" where
  "AddTag r t w =
     logCall (CallAddTag r t)
       (updateObject r (\<lambda>m. m\<lparr>Tags := (if t \<in> set (Tags m) then Tags m else Tags m @ [t])\<rparr>) w)"

subsection \<open>PurchaseItem\<close>

text \<open>\<^verbatim>\<open>register.price[PricingExchangeType.BUY]?.[currency] ?? 0\<close>\<close>

definition buyPrice :: "Register \<Rightarrow> Currency \<Rightarrow> int" where
  "buyPrice register currency =
     (case price register BUY of
        None \<Rightarrow> 0
      | Some table \<Rightarrow> (case table currency of None \<Rightarrow> 0 | Some amount \<Rightarrow> amount))"

text \<open>Line 41: some currency whose balance is below its price.\<close>

definition lacksCurrency :: "Currency list \<Rightarrow> UserComponent \<Rightarrow> Register \<Rightarrow> bool" where
  "lacksCurrency currencies user register =
     list_ex (\<lambda>currency. Balance user currency < buyPrice register currency) currencies"

text \<open>
  The double nearest to an integer: an integer of at most 53 bits is a double; a longer
  one keeps its 53 leading bits, rounded to nearest with ties to the even significand.
  Results beyond the largest finite double, which Luau stores as infinity, are outside
  the model.
\<close>

definition roundToDouble :: "int \<Rightarrow> int" where
  "roundToDouble n =
     (let a = \<bar>n\<bar>; e = bitlen a - 53 in
      if e \<le> 0 then n
      else
        (let q = a div 2 ^ nat e; r = a mod 2 ^ nat e; half = 2 ^ nat (e - 1);
             q' = (if half < r \<or> (r = half \<and> odd q) then q + 1 else q)
         in sgn n * (q' * 2 ^ nat e)))"

text \<open>\<^verbatim>\<open>a - b\<close> on two such numbers: the exact difference, rounded to a double.\<close>

definition numberSub :: "int \<Rightarrow> int \<Rightarrow> int" where
  "numberSub a b = roundToDouble (a - b)"

text \<open>Line 44: the \<open>forEach\<close> that subtracts each price in turn (\<^verbatim>\<open>-=\<close>).\<close>

definition subtractPrice :: "Register \<Rightarrow> Currency \<Rightarrow> UserComponent \<Rightarrow> UserComponent" where
  "subtractPrice register currency user =
     user\<lparr>Balance := (Balance user)
             (currency := numberSub (Balance user currency) (buyPrice register currency))\<rparr>"

definition withdraw :: "Currency list \<Rightarrow> Register \<Rightarrow> UserComponent \<Rightarrow> UserComponent" where
  "withdraw currencies register user = fold (subtractPrice register) currencies user"

subsection \<open>CreateItem\<close>

text \<open>Line 68: \<^verbatim>\<open>cframe ??= new CFrame(new Vector3(0, model.PrimaryPart!.Size.Y / 2, 0))\<close>\<close>

definition candidateCFrame :: "Model \<Rightarrow> CFrame option \<Rightarrow> CFrame" where
  "candidateCFrame m cframe =
     (case cframe of
        Some cf \<Rightarrow> cf
      | None \<Rightarrow> CFrame_new (Vector3 0 (Y (Size (PrimaryPart m)) / 2) 0))"

text \<open>
  The height of the lowest face of the primary part of a model whose pivot, the centre
  of that part, is at \<open>cf\<close> with no rotation: line 67 calls it
  ``the bottom of the primary part of the item''.
\<close>

definition primaryPartBottom :: "Model \<Rightarrow> CFrame \<Rightarrow> real" where
  "primaryPartBottom m cf = Y (Position cf) - Y (Size (PrimaryPart m)) / 2"

type_synonym ItemResult = "(ItemComponent, GenericError) Result Completion"

text \<open>
  \<open>guid\<close> is what \<^verbatim>\<open>HttpService.GenerateGUID(false)\<close> yields when the caller passes no
  instance id (the default value of the parameter).
\<close>

text \<open>
  Lines 65 and 74-82: the clone of the register's model is pivoted to \<open>cframe\<close>, stamped
  with its three attributes, named, parented to \<open>Workspace\<close> and tagged as an item.
\<close>

definition spawnModel ::
  "Register \<Rightarrow> UserComponent \<Rightarrow> string \<Rightarrow> string \<Rightarrow> CFrame \<Rightarrow> World \<Rightarrow> InstanceRef \<times> World" where
  "spawnModel reg user register inst cframe w =
     (let (r, w1) = Clone (model reg) w;
          w2 = PivotTo r cframe w1;
          w3 = SetAttribute r ''User'' (NumberValue (UserId user)) w2;
          w4 = SetAttribute r ''ItemInstanceUUID'' (StringValue inst) w3;
          w5 = SetAttribute r ''ItemRegisterUUID'' (StringValue register) w4;
          w6 = SetName r inst w5;
          w7 = SetParent r Workspace w6;
          w8 = AddTag r CollectionTag_ITEM w7
      in (r, w8))"

text \<open>
  The clone has the primary part of the register's model, so line 68 reads its size from
  \<open>model reg\<close>. \<open>AdjustCFrame\<close> is a function of the frame alone.
\<close>

definition CreateItem ::
  "Dependencies \<Rightarrow> string \<Rightarrow> UserComponent \<Rightarrow> string \<Rightarrow> string option \<Rightarrow> CFrame option \<Rightarrow> World
     \<Rightarrow> ItemResult \<times> UserComponent \<times> World" where
  "CreateItem deps guid user register instance_opt cframe_opt w =
     (let inst = (case instance_opt of None \<Rightarrow> guid | Some i \<Rightarrow> i) in
      case ItemRegistry deps register of
        None \<Rightarrow> (Returns (Result_err NOT_FOUND), user, w)
      | Some reg \<Rightarrow>
          (let cframe = candidateCFrame (model reg) cframe_opt;
               rounded = AdjustCFrame deps cframe;
               (r, w8) = spawnModel reg user register inst cframe w;
               w9 = logCall (CallGetComponent r) w8
           in case getComponent deps w8 r of
                None \<Rightarrow> (Throws ''component was not initialized!'', user, w9)
              | Some component \<Rightarrow>
                  (let w10 = PivotTo (instance component) rounded w9;
                       user' = user\<lparr>PlacedItems :=
                                 (PlacedItems user)(ItemInstanceUUID (attributes component) \<mapsto> component)\<rparr>
                   in (Returns (Result_ok component), user', w10))))"

definition PurchaseItem ::
  "Dependencies \<Rightarrow> string \<Rightarrow> UserComponent \<Rightarrow> string \<Rightarrow> CFrame option \<Rightarrow> World
     \<Rightarrow> ItemResult \<times> UserComponent \<times> World" where
  "PurchaseItem deps guid user registerUUID position w =
     (case ItemRegistry deps registerUUID of
        None \<Rightarrow> (Returns (Result_err NOT_FOUND), user, w)
      | Some register \<Rightarrow>
          (case price register BUY of
             None \<Rightarrow> (Returns (Result_err FORBIDDEN), user, w)
           | Some table \<Rightarrow>
               if lacksCurrency (Currencies deps) user register
               then (Returns (Result_err FORBIDDEN), user, w)
               else CreateItem deps guid (withdraw (Currencies deps) register user)
                      registerUUID None position w))"

subsection \<open>GetItem\<close>

text \<open>The first child of \<open>Workspace\<close> with the given name, in order of creation.\<close>

definition FindFirstChild :: "World \<Rightarrow> string \<Rightarrow> InstanceRef option" where
  "FindFirstChild w name =
     find (\<lambda>r. case objects w r of
                 None \<Rightarrow> False
               | Some m \<Rightarrow> Parent m = Workspace \<and> Name m = name)
          [0..<nextRef w]"

text \<open>
  \<^verbatim>\<open>game.Workspace.WaitForChild(uuid)\<close> is called without a timeout: the thread yields
  until a child of that name exists. \<open>env t\<close> is the data model at the \<open>t\<close>-th
  resumption of the thread; the result \<open>None\<close> is the call that never returns.
\<close>

partial_function (option) WaitForChild ::
  "(nat \<Rightarrow> World) \<Rightarrow> string \<Rightarrow> nat \<Rightarrow> (nat \<times> InstanceRef) option" where
  "WaitForChild env name t =
     (case FindFirstChild (env t) name of
        Some r \<Rightarrow> Some (t, r)
      | None \<Rightarrow> WaitForChild env name (Suc t))"

declare WaitForChild.simps [code]

text \<open>
  \<open>GetItem\<close> started at time \<open>t\<close>: \<open>None\<close> when it never returns, otherwise the
  \<open>Option\<close> it returns (\<open>Option.wrap\<close> of the component).
\<close>

definition GetItem ::
  "Dependencies \<Rightarrow> (nat \<Rightarrow> World) \<Rightarrow> string \<Rightarrow> nat \<Rightarrow> ItemComponent option option" where
  "GetItem deps env uuid t =
     (case WaitForChild env uuid t of
        None \<Rightarrow> None
      | Some (t', r) \<Rightarrow> Some (getComponent deps (env t') r))"

subsection \<open>The spawned instance, in closed form\<close>

text \<open>
  What \<open>spawnModel\<close> leaves in the store under the new reference, and the calls it logs.
  Both are derived from \<open>spawnModel\<close> (lemma \<open>spawnModel_eq\<close>), not from the source.
\<close>

definition spawnedModel :: "Register \<Rightarrow> UserComponent \<Rightarrow> string \<Rightarrow> string \<Rightarrow> CFrame \<Rightarrow> Model" where
  "spawnedModel reg user register inst cframe =
     (model reg)\<lparr>Pivot := cframe,
        Attributes := (Attributes (model reg))
           (''User'' \<mapsto> NumberValue (UserId user),
            ''ItemInstanceUUID'' \<mapsto> StringValue inst,
            ''ItemRegisterUUID'' \<mapsto> StringValue register),
        Name := inst, Parent := Workspace,
        Tags := (if CollectionTag_ITEM \<in> set (Tags (model reg)) then Tags (model reg)
                 else Tags (model reg) @ [CollectionTag_ITEM])\<rparr>"

definition spawnCalls :: "InstanceRef \<Rightarrow> UserComponent \<Rightarrow> string \<Rightarrow> string \<Rightarrow> CFrame \<Rightarrow> Call list" where
  "spawnCalls r user register inst cframe =
     [CallClone r, CallPivotTo r cframe,
      CallSetAttribute r ''User'' (NumberValue (UserId user)),
      CallSetAttribute r ''ItemInstanceUUID'' (StringValue inst),
      CallSetAttribute r ''ItemRegisterUUID'' (StringValue register),
      CallSetName r inst, CallSetParent r Workspace, CallAddTag r CollectionTag_ITEM]"

text \<open>The handle that the binder yields for a spawned instance, when it yields one.\<close>

definition spawnedComponent :: "InstanceRef \<Rightarrow> UserComponent \<Rightarrow> string \<Rightarrow> string \<Rightarrow> ItemComponent" where
  "spawnedComponent r user register inst =
     \<lparr>instance = r,
      attributes = \<lparr>User = UserId user, ItemInstanceUUID = inst, ItemRegisterUUID = register\<rparr>\<rparr>"

subsection \<open>A small catalogue for concrete runs\<close>

text \<open>
  Three registers: \<open>T1\<close> costs 50 GOLD, \<open>T2\<close> costs 200 GOLD, \<open>T3\<close> has no BUY entry.
  The user holds 100 GOLD. The adjustment snaps the horizontal position down to the grid.
\<close>

definition crate :: Model where
  "crate = \<lparr>Name = ''Crate'', Parent = NoParent, Pivot = CFrame_new (Vector3 0 0 0),
             PrimaryPart = \<lparr>Size = Vector3 2 4 2\<rparr>, Attributes = Map.empty, Tags = []\<rparr>"

definition registerT1 :: Register where
  "registerT1 = \<lparr>model = crate, price = [BUY \<mapsto> [''GOLD'' \<mapsto> 50]]\<rparr>"

definition registerT2 :: Register where
  "registerT2 = \<lparr>model = crate, price = [BUY \<mapsto> [''GOLD'' \<mapsto> 200]]\<rparr>"

definition registerT3 :: Register where
  "registerT3 = \<lparr>model = crate, price = [SELL \<mapsto> [''GOLD'' \<mapsto> 10]]\<rparr>"

definition snapToGrid :: "CFrame \<Rightarrow> CFrame" where
  "snapToGrid cf =
     CFrame (Vector3 (of_int \<lfloor>X (Position cf)\<rfloor>) (Y (Position cf)) (of_int \<lfloor>Z (Position cf)\<rfloor>))
       (XVector cf) (YVector cf) (ZVector cf)"

definition catalogue :: Dependencies where
  "catalogue =
     \<lparr>ItemRegistry = [''T1'' \<mapsto> registerT1, ''T2'' \<mapsto> registerT2, ''T3'' \<mapsto> registerT3],
      Currencies = [''GOLD'', ''GEMS''],
      AdjustCFrame = snapToGrid,
      hasComponent = (\<lambda>w r. True)\<rparr>"

text \<open>The same catalogue with a binder that never constructs a component.\<close>

definition catalogueUnbound :: Dependencies where
  "catalogueUnbound = catalogue\<lparr>hasComponent := (\<lambda>w r. False)\<rparr>"

definition emptyWorld :: World where
  "emptyWorld = \<lparr>objects = Map.empty, nextRef = 0, calls = []\<rparr>"

definition alice :: UserComponent where
  "alice = \<lparr>UserId = 7, Balance = (\<lambda>c. if c = ''GOLD'' then 100 else 0), PlacedItems = Map.empty\<rparr>"

text \<open>
  A register that costs 1 GOLD, alone in its catalogue, and a user whose GOLD balance is
  the double \<open>2 ^ 53 + 2\<close>.
\<close>

definition registerT4 :: Register where
  "registerT4 = \<lparr>model = crate, price = [BUY \<mapsto> [''GOLD'' \<mapsto> 1]]\<rparr>"

definition mint :: Dependencies where
  "mint = catalogue\<lparr>ItemRegistry := [''T4'' \<mapsto> registerT4]\<rparr>"

definition croesus :: UserComponent where
  "croesus = \<lparr>UserId = 8, Balance = (\<lambda>c. if c = ''GOLD'' then 9007199254740994 else 0),
               PlacedItems = Map.empty\<rparr>"

text \<open>A frame off the grid.\<close>

definition offGrid :: CFrame where
  "offGrid = CFrame_new (Vector3 (3 / 2) 2 (7 / 2))"

text \<open>Two calls of \<open>CreateItem\<close> that pass the same instance id.\<close>

definition firstRun :: "ItemResult \<times> UserComponent \<times> World" where
  "firstRun = CreateItem catalogue ''g1'' alice ''T1'' (Some ''dup'') None emptyWorld"

definition secondRun :: "ItemResult \<times> UserComponent \<times> World" where
  "secondRun =
     CreateItem catalogue ''g2'' (fst (snd firstRun)) ''T1'' (Some ''dup'') (Some offGrid)
       (snd (snd firstRun))"

text \<open>
  The data model after the purchase of a \<open>T1\<close> with generated id \<open>g1\<close>, and a history in
  which that purchase happens before the third resumption of a waiting thread.
\<close>

definition purchasedWorld :: World where
  "purchasedWorld = snd (snd (PurchaseItem catalogue ''g1'' alice ''T1'' None emptyWorld))"

definition history :: "nat \<Rightarrow> World" where
  "history t = (if t < 2 then emptyWorld else purchasedWorld)"

section \<open>Properties\<close>

subsection \<open>Auxiliary facts\<close>

lemma updateObject_stored:
  "updateObject r f \<lparr>objects = os(r \<mapsto> m), nextRef = n, calls = cs\<rparr> =
     \<lparr>objects = os(r \<mapsto> f m), nextRef = n, calls = cs\<rparr>"
  by (simp add: updateObject_def)

lemma logCall_stored:
  "logCall c \<lparr>objects = os, nextRef = n, calls = cs\<rparr> = \<lparr>objects = os, nextRef = n, calls = cs @ [c]\<rparr>"
  by (simp add: logCall_def)

lemma Clone_stored:
  "Clone m \<lparr>objects = os, nextRef = n, calls = cs\<rparr> =
     (n, \<lparr>objects = os(n \<mapsto> m\<lparr>Parent := NoParent\<rparr>), nextRef = Suc n, calls = cs @ [CallClone n]\<rparr>)"
  by (simp add: Clone_def logCall_def)

lemma PivotTo_stored:
  "PivotTo r cf \<lparr>objects = os(r \<mapsto> m), nextRef = n, calls = cs\<rparr> =
     \<lparr>objects = os(r \<mapsto> m\<lparr>Pivot := cf\<rparr>), nextRef = n, calls = cs @ [CallPivotTo r cf]\<rparr>"
  by (simp only: PivotTo_def updateObject_stored logCall_stored)

lemma SetAttribute_stored:
  "SetAttribute r k v \<lparr>objects = os(r \<mapsto> m), nextRef = n, calls = cs\<rparr> =
     \<lparr>objects = os(r \<mapsto> m\<lparr>Attributes := (Attributes m)(k \<mapsto> v)\<rparr>), nextRef = n,
      calls = cs @ [CallSetAttribute r k v]\<rparr>"
  by (simp only: SetAttribute_def updateObject_stored logCall_stored)

lemma SetName_stored:
  "SetName r x \<lparr>objects = os(r \<mapsto> m), nextRef = n, calls = cs\<rparr> =
     \<lparr>objects = os(r \<mapsto> m\<lparr>Name := x\<rparr>), nextRef = n, calls = cs @ [CallSetName r x]\<rparr>"
  by (simp only: SetName_def updateObject_stored logCall_stored)

lemma SetParent_stored:
  "SetParent r p \<lparr>objects = os(r \<mapsto> m), nextRef = n, calls = cs\<rparr> =
     \<lparr>objects = os(r \<mapsto> m\<lparr>Parent := p\<rparr>), nextRef = n, calls = cs @ [CallSetParent r p]\<rparr>"
  by (simp only: SetParent_def updateObject_stored logCall_stored)

lemma AddTag_stored:
  "AddTag r t \<lparr>objects = os(r \<mapsto> m), nextRef = n, calls = cs\<rparr> =
     \<lparr>objects = os(r \<mapsto> m\<lparr>Tags := (if t \<in> set (Tags m) then Tags m else Tags m @ [t])\<rparr>),
      nextRef = n, calls = cs @ [CallAddTag r t]\<rparr>"
  by (simp only: AddTag_def updateObject_stored logCall_stored)

lemma spawnModel_eq:
  "spawnModel reg user register inst cframe w =
     (nextRef w,
      \<lparr>objects = (objects w)(nextRef w \<mapsto> spawnedModel reg user register inst cframe),
       nextRef = Suc (nextRef w),
       calls = calls w @ spawnCalls (nextRef w) user register inst cframe\<rparr>)"
proof (cases w)
  case (fields os n cs)
  have "spawnModel reg user register inst cframe \<lparr>objects = os, nextRef = n, calls = cs\<rparr> =
     (n, \<lparr>objects = os(n \<mapsto> spawnedModel reg user register inst cframe), nextRef = Suc n,
           calls = cs @ spawnCalls n user register inst cframe\<rparr>)"
    unfolding spawnModel_def Clone_stored Let_def prod.case PivotTo_stored SetAttribute_stored
      SetName_stored SetParent_stored AddTag_stored
    by (simp add: spawnedModel_def spawnCalls_def)
  with fields show ?thesis by simp
qed

lemma readAttributes_spawnedModel:
  "readAttributes (spawnedModel reg user register inst cframe) =
     Some \<lparr>User = UserId user, ItemInstanceUUID = inst, ItemRegisterUUID = register\<rparr>"
  by (simp add: readAttributes_def spawnedModel_def)

lemma getComponent_spawnModel:
  "getComponent deps (snd (spawnModel reg user register inst cframe w)) (nextRef w) =
     (if hasComponent deps (snd (spawnModel reg user register inst cframe w)) (nextRef w)
      then Some (spawnedComponent (nextRef w) user register inst)
      else None)"
  by (simp add: getComponent_def spawnModel_eq readAttributes_spawnedModel spawnedComponent_def)

text \<open>The two ways \<open>CreateItem\<close> ends once the register is found.\<close>

lemma CreateItem_found:
  assumes "ItemRegistry deps register = Some reg"
  shows "CreateItem deps guid user register instance_opt cframe_opt w =
     (let inst = (case instance_opt of None \<Rightarrow> guid | Some i \<Rightarrow> i);
          cframe = candidateCFrame (model reg) cframe_opt;
          r = nextRef w;
          w8 = snd (spawnModel reg user register inst cframe w);
          w9 = logCall (CallGetComponent r) w8;
          component = spawnedComponent r user register inst
      in if hasComponent deps w8 r
         then (Returns (Result_ok component),
               user\<lparr>PlacedItems := (PlacedItems user)(inst \<mapsto> component)\<rparr>,
               PivotTo r (AdjustCFrame deps cframe) w9)
         else (Throws ''component was not initialized!'', user, w9))"
proof -
  have ref: "fst (spawnModel reg user register inst cframe w) = nextRef w" for inst cframe
    by (simp add: spawnModel_eq)
  from assms show ?thesis
    by (simp add: CreateItem_def Let_def split_beta ref getComponent_spawnModel spawnedComponent_def)
qed

lemma CreateItem_Balance:
  "Balance (fst (snd (CreateItem deps guid user register instance_opt cframe_opt w))) = Balance user"
proof (cases "ItemRegistry deps register")
  case None
  then show ?thesis by (simp add: CreateItem_def)
next
  case (Some reg)
  then show ?thesis by (simp add: CreateItem_found Let_def)
qed

text \<open>Rounding keeps the sign and leaves integers of magnitude up to \<open>2 ^ 53\<close> alone.\<close>

lemma roundToDouble_non_negative:
  assumes "0 \<le> n"
  shows "0 \<le> roundToDouble n"
proof (cases "bitlen \<bar>n\<bar> - 53 \<le> 0")
  case True
  with assms show ?thesis by (simp add: roundToDouble_def)
next
  case False
  let ?e = "nat (bitlen \<bar>n\<bar> - 53)"
  let ?q = "\<bar>n\<bar> div 2 ^ ?e"
  have q: "0 \<le> ?q" by (simp add: pos_imp_zdiv_nonneg_iff)
  then have "0 \<le> (if 2 ^ nat (bitlen \<bar>n\<bar> - 53 - 1) < \<bar>n\<bar> mod 2 ^ ?e
                       \<or> (\<bar>n\<bar> mod 2 ^ ?e = 2 ^ nat (bitlen \<bar>n\<bar> - 53 - 1) \<and> odd ?q)
                    then ?q + 1 else ?q) * 2 ^ ?e"
    by simp
  moreover from assms have "0 \<le> sgn n" by (simp add: sgn_if)
  ultimately show ?thesis
    using False unfolding roundToDouble_def Let_def
    by (simp only: if_False mult_nonneg_nonneg)
qed

lemma bitlen_54: "2 ^ 53 \<le> a \<Longrightarrow> a < 2 ^ 54 \<Longrightarrow> bitlen a = 54"
proof -
  assume lo: "(2::int) ^ 53 \<le> a" and hi: "a < 2 ^ 54"
  from hi have "bitlen a \<le> 54" by (simp add: bitlen_le_iff_power)
  moreover have "\<not> bitlen a \<le> 53" using lo by (simp add: bitlen_le_iff_power)
  ultimately show ?thesis by simp
qed

lemma bitlen_small: "\<bar>n\<bar> < 2 ^ 53 \<Longrightarrow> bitlen \<bar>n\<bar> \<le> 53"
  by (simp add: bitlen_le_iff_power)

lemma roundToDouble_exact:
  assumes "\<bar>n\<bar> \<le> 2 ^ 53"
  shows "roundToDouble n = n"
proof (cases "\<bar>n\<bar> < 2 ^ 53")
  case True
  then show ?thesis by (simp add: roundToDouble_def bitlen_small)
next
  case False
  with assms have "\<bar>n\<bar> = 9007199254740992" by simp
  then consider "n = 9007199254740992" | "n = - 9007199254740992" by linarith
  then show ?thesis
  proof cases
    case 1
    have "bitlen 9007199254740992 = 54" by (rule bitlen_54) simp_all
    with 1 show ?thesis by (simp add: roundToDouble_def Let_def)
  next
    case 2
    have "bitlen 9007199254740992 = 54" by (rule bitlen_54) simp_all
    with 2 show ?thesis by (simp add: roundToDouble_def Let_def)
  qed
qed

lemma numberSub_exact: "\<bar>a - b\<bar> \<le> 2 ^ 53 \<Longrightarrow> numberSub a b = a - b"
  by (simp add: numberSub_def roundToDouble_exact)

lemma numberSub_non_negative: "b \<le> a \<Longrightarrow> 0 \<le> numberSub a b"
  by (simp add: numberSub_def roundToDouble_non_negative)

lemma numberSub_zero: "numberSub a 0 = roundToDouble a"
  by (simp add: numberSub_def)

text \<open>\<open>2 ^ 53 + 1\<close> lies halfway between two doubles; the even significand is \<open>2 ^ 53\<close>.\<close>

lemma numberSub_halfway: "numberSub 9007199254740994 1 = 9007199254740992"
proof -
  have "bitlen 9007199254740993 = 54" by (rule bitlen_54) simp_all
  then show ?thesis by (simp add: numberSub_def roundToDouble_def Let_def)
qed

lemma withdraw_PlacedItems: "PlacedItems (withdraw cs reg u) = PlacedItems u"
  unfolding withdraw_def by (induction cs arbitrary: u) (simp_all add: subtractPrice_def)

lemma withdraw_UserId: "UserId (withdraw cs reg u) = UserId u"
  unfolding withdraw_def by (induction cs arbitrary: u) (simp_all add: subtractPrice_def)

lemma withdraw_Balance_notin: "c \<notin> set cs \<Longrightarrow> Balance (withdraw cs reg u) c = Balance u c"
  unfolding withdraw_def by (induction cs arbitrary: u) (simp_all add: subtractPrice_def)

lemma withdraw_Balance_distinct:
  "distinct cs \<Longrightarrow> c \<in> set cs \<Longrightarrow>
     Balance (withdraw cs reg u) c = numberSub (Balance u c) (buyPrice reg c)"
proof (induction cs arbitrary: u)
  case Nil
  then show ?case by simp
next
  case (Cons a cs)
  show ?case
  proof (cases "c = a")
    case True
    with Cons.prems have "c \<notin> set cs" by simp
    then have "Balance (withdraw cs reg (subtractPrice reg a u)) c = Balance (subtractPrice reg a u) c"
      by (rule withdraw_Balance_notin)
    with True show ?thesis by (simp add: withdraw_def subtractPrice_def)
  next
    case False
    with Cons.prems have "distinct cs" "c \<in> set cs" by simp_all
    from Cons.IH [OF this, of "subtractPrice reg a u"] False
    show ?thesis by (simp add: withdraw_def subtractPrice_def)
  qed
qed

lemma lacksCurrency_iff:
  "lacksCurrency cs user reg \<longleftrightarrow> (\<exists>c \<in> set cs. Balance user c < buyPrice reg c)"
  by (simp add: lacksCurrency_def list_ex_iff)

text \<open>\<open>PurchaseItem\<close> once every check has passed.\<close>

lemma PurchaseItem_passed:
  assumes "ItemRegistry deps registerUUID = Some reg" "price reg BUY = Some table"
    "\<not> lacksCurrency (Currencies deps) user reg"
  shows "PurchaseItem deps guid user registerUUID position w =
           CreateItem deps guid (withdraw (Currencies deps) reg user) registerUUID None position w"
  using assms by (simp add: PurchaseItem_def)

text \<open>Facts of the catalogue.\<close>

lemma catalogue_simps:
  "ItemRegistry catalogue ''T1'' = Some registerT1"
  "ItemRegistry catalogue ''T2'' = Some registerT2"
  "ItemRegistry catalogue ''T3'' = Some registerT3"
  "ItemRegistry catalogue ''ghost'' = None"
  "Currencies catalogue = [''GOLD'', ''GEMS'']"
  "AdjustCFrame catalogue = snapToGrid"
  "hasComponent catalogue w r"
  by (simp_all add: catalogue_def)

lemma catalogueUnbound_simps:
  "ItemRegistry catalogueUnbound = ItemRegistry catalogue"
  "Currencies catalogueUnbound = Currencies catalogue"
  "\<not> hasComponent catalogueUnbound w r"
  by (simp_all add: catalogueUnbound_def)

lemma buyPrice_simps:
  "buyPrice registerT1 ''GOLD'' = 50"
  "buyPrice registerT1 ''GEMS'' = 0"
  "buyPrice registerT2 ''GOLD'' = 200"
  "buyPrice registerT3 c = 0"
  "price registerT3 BUY = None"
  "price registerT1 BUY = Some [''GOLD'' \<mapsto> 50]"
  by (simp_all add: buyPrice_def registerT1_def registerT2_def registerT3_def)

lemma alice_simps:
  "Balance alice ''GOLD'' = 100"
  "Balance alice ''GEMS'' = 0"
  "PlacedItems alice = Map.empty"
  "UserId alice = 7"
  by (simp_all add: alice_def)

subsection \<open>Failed purchases\<close>

text \<open>
  C1. When the register exists and, for some member of the Currency enum, the BUY price
  (0 when the price table does not name the currency) exceeds the user's balance,
  \<open>PurchaseItem\<close> returns \<open>FORBIDDEN\<close> and hands back the user and the data model exactly
  as they were: no balance has been debited.
\<close>

theorem PurchaseItem_insufficient_funds:
  assumes "ItemRegistry deps registerUUID = Some reg"
    and "currency \<in> set (Currencies deps)"
    and "Balance user currency < buyPrice reg currency"
  shows "PurchaseItem deps guid user registerUUID position w =
           (Returns (Result_err FORBIDDEN), user, w)"
proof (cases "price reg BUY")
  case None
  with assms(1) show ?thesis by (simp add: PurchaseItem_def)
next
  case (Some table)
  from assms(2,3) have "lacksCurrency (Currencies deps) user reg"
    unfolding lacksCurrency_iff by blast
  with assms(1) Some show ?thesis by (simp add: PurchaseItem_def)
qed

theorem PurchaseItem_insufficient_funds_witness:
  "ItemRegistry catalogue ''T2'' = Some registerT2 \<and> ''GOLD'' \<in> set (Currencies catalogue)
   \<and> Balance alice ''GOLD'' < buyPrice registerT2 ''GOLD''
   \<and> PurchaseItem catalogue ''g1'' alice ''T2'' None emptyWorld =
       (Returns (Result_err FORBIDDEN), alice, emptyWorld)"
proof -
  have h1: "ItemRegistry catalogue ''T2'' = Some registerT2" by (simp add: catalogue_simps)
  have h2: "''GOLD'' \<in> set (Currencies catalogue)" by (simp add: catalogue_simps)
  have h3: "Balance alice ''GOLD'' < buyPrice registerT2 ''GOLD''"
    by (simp add: alice_simps buyPrice_simps)
  from PurchaseItem_insufficient_funds [OF h1 h2 h3] h1 h2 h3 show ?thesis by simp
qed

text \<open>
  C3. For a register that exists but has no BUY entry in its price table,
  \<open>PurchaseItem\<close> returns \<open>FORBIDDEN\<close> for every user and leaves the user (so every
  balance) and the data model unchanged.
\<close>

theorem PurchaseItem_not_purchasable:
  assumes "ItemRegistry deps registerUUID = Some reg" and "price reg BUY = None"
  shows "PurchaseItem deps guid user registerUUID position w =
           (Returns (Result_err FORBIDDEN), user, w)"
  using assms by (simp add: PurchaseItem_def)

theorem PurchaseItem_not_purchasable_witness:
  "ItemRegistry catalogue ''T3'' = Some registerT3 \<and> price registerT3 BUY = None
   \<and> PurchaseItem catalogue ''g1'' alice ''T3'' None emptyWorld =
       (Returns (Result_err FORBIDDEN), alice, emptyWorld)"
proof -
  have h1: "ItemRegistry catalogue ''T3'' = Some registerT3" by (simp add: catalogue_simps)
  have h2: "price registerT3 BUY = None" by (simp add: buyPrice_simps)
  from PurchaseItem_not_purchasable [OF h1 h2] h1 h2 show ?thesis by simp
qed

text \<open>
  C4. For an id that the registry does not hold, \<open>PurchaseItem\<close> and \<open>CreateItem\<close> both
  return \<open>NOT_FOUND\<close>, and the user (balances and placed items) and the data model come
  back unchanged.
\<close>

theorem unknown_register_not_found:
  assumes "ItemRegistry deps register = None"
  shows "PurchaseItem deps guid user register position w =
           (Returns (Result_err NOT_FOUND), user, w)
       \<and> CreateItem deps guid user register instance_opt position w =
           (Returns (Result_err NOT_FOUND), user, w)"
  using assms by (simp add: PurchaseItem_def CreateItem_def)

theorem unknown_register_not_found_witness:
  "ItemRegistry catalogue ''ghost'' = None
   \<and> PurchaseItem catalogue ''g1'' alice ''ghost'' None emptyWorld =
       (Returns (Result_err NOT_FOUND), alice, emptyWorld)
   \<and> CreateItem catalogue ''g1'' alice ''ghost'' (Some ''i1'') None emptyWorld =
       (Returns (Result_err NOT_FOUND), alice, emptyWorld)"
proof -
  have h: "ItemRegistry catalogue ''ghost'' = None" by (simp add: catalogue_simps)
  from unknown_register_not_found [OF h] h show ?thesis by simp
qed


subsection \<open>Successful purchases\<close>

lemma purchase_T1_passes: "\<not> lacksCurrency (Currencies catalogue) alice registerT1"
  by (simp add: lacksCurrency_def catalogue_simps alice_simps buyPrice_simps)

lemma spawnModel_fst: "fst (spawnModel reg user register inst cframe w) = nextRef w"
  by (simp add: spawnModel_eq)

lemma purchase_T1_result:
  "fst (PurchaseItem catalogue ''g1'' alice ''T1'' position emptyWorld) =
     Returns (Result_ok (spawnedComponent 0 alice ''T1'' ''g1''))"
  by (simp add: PurchaseItem_passed [OF catalogue_simps(1) buyPrice_simps(6) purchase_T1_passes]
      CreateItem_found [OF catalogue_simps(1)] Let_def catalogue_simps spawnedComponent_def
      withdraw_UserId emptyWorld_def)

lemma mint_simps:
  "ItemRegistry mint ''T4'' = Some registerT4"
  "Currencies mint = [''GOLD'', ''GEMS'']"
  "hasComponent mint w r"
  by (simp_all add: mint_def catalogue_def)

lemma registerT4_simps:
  "price registerT4 BUY = Some [''GOLD'' \<mapsto> 1]"
  "buyPrice registerT4 ''GOLD'' = 1"
  "buyPrice registerT4 ''GEMS'' = 0"
  by (simp_all add: buyPrice_def registerT4_def)

lemma croesus_simps:
  "Balance croesus ''GOLD'' = 9007199254740994"
  "Balance croesus ''GEMS'' = 0"
  by (simp_all add: croesus_def)

lemma purchase_T4_passes: "\<not> lacksCurrency (Currencies mint) croesus registerT4"
  by (simp add: lacksCurrency_def mint_simps croesus_simps registerT4_simps)

text \<open>
  C2, as the claim states it, fails: a balance is a double, and line 44 stores the
  rounded difference. A user with \<open>2 ^ 53 + 2\<close> GOLD buys an item that costs 1 GOLD; the
  purchase returns \<open>Ok\<close> and the balance is then \<open>2 ^ 53\<close>: it has gone down by 2.
\<close>

theorem PurchaseItem_exact_debit_counterexample:
  "ItemRegistry mint ''T4'' = Some registerT4
   \<and> buyPrice registerT4 ''GOLD'' = 1
   \<and> Balance croesus ''GOLD'' = 9007199254740994
   \<and> fst (PurchaseItem mint ''g1'' croesus ''T4'' None emptyWorld) =
        Returns (Result_ok (spawnedComponent 0 croesus ''T4'' ''g1''))
   \<and> Balance (fst (snd (PurchaseItem mint ''g1'' croesus ''T4'' None emptyWorld))) ''GOLD'' =
        9007199254740992
   \<and> Balance (fst (snd (PurchaseItem mint ''g1'' croesus ''T4'' None emptyWorld))) ''GOLD'' \<noteq>
        Balance croesus ''GOLD'' - buyPrice registerT4 ''GOLD''"
proof -
  let ?run = "PurchaseItem mint ''g1'' croesus ''T4'' None emptyWorld"
  let ?paid = "withdraw (Currencies mint) registerT4 croesus"
  have run: "?run = CreateItem mint ''g1'' ?paid ''T4'' None None emptyWorld"
    by (rule PurchaseItem_passed [OF mint_simps(1) registerT4_simps(1) purchase_T4_passes])
  have res: "fst ?run = Returns (Result_ok (spawnedComponent 0 croesus ''T4'' ''g1''))"
    unfolding run
    by (simp add: CreateItem_found [OF mint_simps(1)] Let_def mint_simps spawnedComponent_def
        withdraw_UserId emptyWorld_def)
  have "Balance (fst (snd ?run)) ''GOLD'' = numberSub (Balance croesus ''GOLD'') (buyPrice registerT4 ''GOLD'')"
    unfolding run by (simp add: CreateItem_Balance withdraw_Balance_distinct mint_simps)
  then have gold: "Balance (fst (snd ?run)) ''GOLD'' = 9007199254740992"
    by (simp add: croesus_simps registerT4_simps numberSub_halfway)
  have differ: "Balance (fst (snd ?run)) ''GOLD'' \<noteq> Balance croesus ''GOLD'' - buyPrice registerT4 ''GOLD''"
    unfolding gold by (simp add: croesus_simps registerT4_simps)
  from mint_simps(1) registerT4_simps(2) croesus_simps(1) res gold differ show ?thesis by blast
qed

text \<open>
  C2, amended. When \<open>PurchaseItem\<close> returns \<open>Ok\<close>, the balance of every member of the
  Currency enum has become the double nearest to its old value minus the register's BUY
  price for it (0 when the table does not name it), and every other balance is
  untouched. Whenever that difference has magnitude at most \<open>2 ^ 53\<close>, the balance has
  gone down by exactly the price. The user's placed items have gained exactly one key,
  the generated instance id, bound to the returned component. The enum members are
  distinct, and the generated id is new to the user's placed items.
\<close>

theorem PurchaseItem_ok_debits_rounded:
  assumes ok: "PurchaseItem deps guid user registerUUID position w = (Returns (Result_ok item), user', w')"
    and reg: "ItemRegistry deps registerUUID = Some reg"
    and enum: "distinct (Currencies deps)"
    and fresh: "guid \<notin> dom (PlacedItems user)"
  shows "(\<forall>c. Balance user' c =
              (if c \<in> set (Currencies deps) then numberSub (Balance user c) (buyPrice reg c)
               else Balance user c))
       \<and> (\<forall>c. c \<in> set (Currencies deps) \<and> \<bar>Balance user c - buyPrice reg c\<bar> \<le> 2 ^ 53
              \<longrightarrow> Balance user' c = Balance user c - buyPrice reg c)
       \<and> PlacedItems user' = (PlacedItems user)(guid \<mapsto> item)
       \<and> dom (PlacedItems user') - dom (PlacedItems user) = {guid}
       \<and> ItemInstanceUUID (attributes item) = guid"
proof -
  let ?paid = "withdraw (Currencies deps) reg user"
  from ok reg obtain table where table: "price reg BUY = Some table"
    by (cases "price reg BUY") (auto simp add: PurchaseItem_def)
  from ok reg table have funds: "\<not> lacksCurrency (Currencies deps) user reg"
    by (auto simp add: PurchaseItem_def split: if_splits)
  from ok have created:
    "CreateItem deps guid ?paid registerUUID None position w = (Returns (Result_ok item), user', w')"
    by (simp add: PurchaseItem_passed [OF reg table funds])
  from created have item: "item = spawnedComponent (nextRef w) ?paid registerUUID guid"
    and user': "user' = ?paid\<lparr>PlacedItems := (PlacedItems ?paid)(guid \<mapsto> item)\<rparr>"
    by (auto simp add: CreateItem_found [OF reg] Let_def split: if_splits)
  have bal: "Balance user' c =
      (if c \<in> set (Currencies deps) then numberSub (Balance user c) (buyPrice reg c)
       else Balance user c)" for c
    using user' enum by (simp add: withdraw_Balance_distinct withdraw_Balance_notin)
  have exact: "Balance user' c = Balance user c - buyPrice reg c"
    if "c \<in> set (Currencies deps) \<and> \<bar>Balance user c - buyPrice reg c\<bar> \<le> 2 ^ 53" for c
    using that bal [of c] by (simp add: numberSub_exact)
  have placed: "PlacedItems user' = (PlacedItems user)(guid \<mapsto> item)"
    using user' by (simp add: withdraw_PlacedItems)
  have new: "dom (PlacedItems user') - dom (PlacedItems user) = {guid}"
    using placed fresh by auto
  have key: "ItemInstanceUUID (attributes item) = guid"
    using item by (simp add: spawnedComponent_def)
  from bal exact placed new key show ?thesis by blast
qed

theorem PurchaseItem_ok_debits_rounded_witness:
  "ItemRegistry catalogue ''T1'' = Some registerT1 \<and> distinct (Currencies catalogue)
   \<and> ''g1'' \<notin> dom (PlacedItems alice)
   \<and> fst (PurchaseItem catalogue ''g1'' alice ''T1'' None emptyWorld) =
        Returns (Result_ok (spawnedComponent 0 alice ''T1'' ''g1''))
   \<and> Balance (fst (snd (PurchaseItem catalogue ''g1'' alice ''T1'' None emptyWorld))) ''GOLD'' = 50
   \<and> Balance (fst (snd (PurchaseItem catalogue ''g1'' alice ''T1'' None emptyWorld))) ''GEMS'' = 0
   \<and> PlacedItems (fst (snd (PurchaseItem catalogue ''g1'' alice ''T1'' None emptyWorld))) =
        [''g1'' \<mapsto> spawnedComponent 0 alice ''T1'' ''g1'']"
proof -
  let ?run = "PurchaseItem catalogue ''g1'' alice ''T1'' None emptyWorld"
  have reg: "ItemRegistry catalogue ''T1'' = Some registerT1" by (simp add: catalogue_simps)
  have enum: "distinct (Currencies catalogue)" by (simp add: catalogue_simps)
  have fresh: "''g1'' \<notin> dom (PlacedItems alice)" by (simp add: alice_simps)
  have ok: "?run = (Returns (Result_ok (spawnedComponent 0 alice ''T1'' ''g1'')),
                    fst (snd ?run), snd (snd ?run))"
    using purchase_T1_result [of None] by (simp add: prod_eq_iff)
  note debited = PurchaseItem_ok_debits_rounded [OF ok reg enum fresh]
  have small_gold: "''GOLD'' \<in> set (Currencies catalogue)
      \<and> \<bar>Balance alice ''GOLD'' - buyPrice registerT1 ''GOLD''\<bar> \<le> 2 ^ 53"
    by (simp add: catalogue_simps alice_simps buyPrice_simps)
  have small_gems: "''GEMS'' \<in> set (Currencies catalogue)
      \<and> \<bar>Balance alice ''GEMS'' - buyPrice registerT1 ''GEMS''\<bar> \<le> 2 ^ 53"
    by (simp add: catalogue_simps alice_simps buyPrice_simps)
  from debited small_gold
  have "Balance (fst (snd ?run)) ''GOLD'' = Balance alice ''GOLD'' - buyPrice registerT1 ''GOLD''"
    by blast
  then have gold: "Balance (fst (snd ?run)) ''GOLD'' = 50"
    by (simp add: alice_simps buyPrice_simps)
  from debited small_gems
  have "Balance (fst (snd ?run)) ''GEMS'' = Balance alice ''GEMS'' - buyPrice registerT1 ''GEMS''"
    by blast
  then have gems: "Balance (fst (snd ?run)) ''GEMS'' = 0"
    by (simp add: alice_simps buyPrice_simps)
  from debited have placed:
    "PlacedItems (fst (snd ?run)) = [''g1'' \<mapsto> spawnedComponent 0 alice ''T1'' ''g1'']"
    by (simp add: alice_simps)
  from reg enum fresh purchase_T1_result [of None] gold gems placed
  show ?thesis by blast
qed

subsection \<open>Poses\<close>

text \<open>
  C5. When \<open>CreateItem\<close> is given no frame, the first pose it applies to the clone (right
  after cloning, before any adjustment) is the unrotated frame at
  \<open>(0, Size.Y / 2, 0)\<close>: both horizontal coordinates are zero, and the primary part, the
  anchor of the model, has its lowest face at height 0, the ground.
\<close>

theorem CreateItem_default_pose:
  assumes "ItemRegistry deps register = Some reg"
  shows "(\<exists>rest. calls (snd (snd (CreateItem deps guid user register instance_opt None w))) =
            calls w @ [CallClone (nextRef w),
                       CallPivotTo (nextRef w) (candidateCFrame (model reg) None)] @ rest)
       \<and> candidateCFrame (model reg) None =
            CFrame_new (Vector3 0 (Y (Size (PrimaryPart (model reg))) / 2) 0)
       \<and> X (Position (candidateCFrame (model reg) None)) = 0
       \<and> Z (Position (candidateCFrame (model reg) None)) = 0
       \<and> primaryPartBottom (model reg) (candidateCFrame (model reg) None) = 0"
proof -
  have "\<exists>rest. calls (snd (snd (CreateItem deps guid user register instance_opt None w))) =
            calls w @ [CallClone (nextRef w),
                       CallPivotTo (nextRef w) (candidateCFrame (model reg) None)] @ rest"
    by (simp add: CreateItem_found [OF assms] Let_def spawnModel_eq spawnCalls_def logCall_def
        PivotTo_def updateObject_def)
  moreover have "primaryPartBottom (model reg) (candidateCFrame (model reg) None) = 0"
    by (simp add: primaryPartBottom_def candidateCFrame_def CFrame_new_def)
  ultimately show ?thesis
    by (simp add: candidateCFrame_def CFrame_new_def)
qed

theorem CreateItem_default_pose_witness:
  "ItemRegistry catalogue ''T1'' = Some registerT1
   \<and> candidateCFrame (model registerT1) None = CFrame_new (Vector3 0 2 0)
   \<and> primaryPartBottom (model registerT1) (CFrame_new (Vector3 0 2 0)) = 0
   \<and> take 2 (calls (snd (snd (CreateItem catalogue ''g1'' alice ''T1'' None None emptyWorld)))) =
       [CallClone 0, CallPivotTo 0 (CFrame_new (Vector3 0 2 0))]"
proof -
  have reg: "ItemRegistry catalogue ''T1'' = Some registerT1" by (simp add: catalogue_simps)
  have size: "Y (Size (PrimaryPart (model registerT1))) = 4"
    by (simp add: registerT1_def crate_def)
  from CreateItem_default_pose [OF reg, of "''g1''" alice None emptyWorld] reg size
  show ?thesis by (auto simp add: emptyWorld_def)
qed

text \<open>
  C6. In a call of \<open>CreateItem\<close> that returns \<open>Ok\<close>, the calls made on the new instance are,
  in order: the clone is pivoted to the candidate frame as it stands (unadjusted), it is
  stamped, named, parented and tagged, its component is fetched from the binder, and
  only then is it pivoted to \<open>AdjustCFrame\<close> of the candidate frame. The pivot of the
  instance in the resulting data model is that adjusted frame.
\<close>

theorem CreateItem_ok_pose_order:
  assumes ok: "CreateItem deps guid user register instance_opt cframe_opt w =
                 (Returns (Result_ok item), user', w')"
    and reg: "ItemRegistry deps register = Some reg"
  shows "calls w' = calls w @
           [CallClone (instance item),
            CallPivotTo (instance item) (candidateCFrame (model reg) cframe_opt),
            CallSetAttribute (instance item) ''User'' (NumberValue (UserId user)),
            CallSetAttribute (instance item) ''ItemInstanceUUID''
              (StringValue (ItemInstanceUUID (attributes item))),
            CallSetAttribute (instance item) ''ItemRegisterUUID'' (StringValue register),
            CallSetName (instance item) (ItemInstanceUUID (attributes item)),
            CallSetParent (instance item) Workspace,
            CallAddTag (instance item) CollectionTag_ITEM,
            CallGetComponent (instance item),
            CallPivotTo (instance item) (AdjustCFrame deps (candidateCFrame (model reg) cframe_opt))]
       \<and> map_option Pivot (objects w' (instance item)) =
            Some (AdjustCFrame deps (candidateCFrame (model reg) cframe_opt))"
proof -
  let ?inst = "case instance_opt of None \<Rightarrow> guid | Some i \<Rightarrow> i"
  let ?cand = "candidateCFrame (model reg) cframe_opt"
  let ?w8 = "snd (spawnModel reg user register ?inst ?cand w)"
  from ok have item: "item = spawnedComponent (nextRef w) user register ?inst"
    and w': "w' = PivotTo (nextRef w) (AdjustCFrame deps ?cand) (logCall (CallGetComponent (nextRef w)) ?w8)"
    by (auto simp add: CreateItem_found [OF reg] Let_def split: if_splits)
  have w8: "?w8 = \<lparr>objects = (objects w)(nextRef w \<mapsto> spawnedModel reg user register ?inst ?cand),
                   nextRef = Suc (nextRef w),
                   calls = calls w @ spawnCalls (nextRef w) user register ?inst ?cand\<rparr>"
    by (simp add: spawnModel_eq)
  have final: "w' = \<lparr>objects = (objects w)(nextRef w \<mapsto>
                         (spawnedModel reg user register ?inst ?cand)\<lparr>Pivot := AdjustCFrame deps ?cand\<rparr>),
                     nextRef = Suc (nextRef w),
                     calls = (calls w @ spawnCalls (nextRef w) user register ?inst ?cand
                              @ [CallGetComponent (nextRef w)])
                              @ [CallPivotTo (nextRef w) (AdjustCFrame deps ?cand)]\<rparr>"
    unfolding w' w8 logCall_stored PivotTo_stored by simp
  show ?thesis
    unfolding final item by (simp add: spawnedComponent_def spawnCalls_def)
qed


theorem CreateItem_ok_pose_order_witness:
  "ItemRegistry catalogue ''T1'' = Some registerT1
   \<and> fst (CreateItem catalogue ''g1'' alice ''T1'' None (Some offGrid) emptyWorld) =
        Returns (Result_ok (spawnedComponent 0 alice ''T1'' ''g1''))
   \<and> calls (snd (snd (CreateItem catalogue ''g1'' alice ''T1'' None (Some offGrid) emptyWorld))) =
        [CallClone 0,
         CallPivotTo 0 (CFrame_new (Vector3 (3 / 2) 2 (7 / 2))),
         CallSetAttribute 0 ''User'' (NumberValue 7),
         CallSetAttribute 0 ''ItemInstanceUUID'' (StringValue ''g1''),
         CallSetAttribute 0 ''ItemRegisterUUID'' (StringValue ''T1''),
         CallSetName 0 ''g1'',
         CallSetParent 0 Workspace,
         CallAddTag 0 ''ITEM'',
         CallGetComponent 0,
         CallPivotTo 0 (CFrame_new (Vector3 1 2 3))]
   \<and> map_option Pivot
        (objects (snd (snd (CreateItem catalogue ''g1'' alice ''T1'' None (Some offGrid) emptyWorld))) 0) =
        Some (CFrame_new (Vector3 1 2 3))"
proof -
  let ?run = "CreateItem catalogue ''g1'' alice ''T1'' None (Some offGrid) emptyWorld"
  have reg: "ItemRegistry catalogue ''T1'' = Some registerT1" by (simp add: catalogue_simps)
  have res: "fst ?run = Returns (Result_ok (spawnedComponent 0 alice ''T1'' ''g1''))"
    by (simp add: CreateItem_found [OF reg] Let_def catalogue_simps emptyWorld_def)
  then have ok: "?run = (Returns (Result_ok (spawnedComponent 0 alice ''T1'' ''g1'')),
                         fst (snd ?run), snd (snd ?run))"
    by (simp add: prod_eq_iff)
  have snap: "snapToGrid offGrid = CFrame_new (Vector3 1 2 3)"
    by (simp add: snapToGrid_def offGrid_def CFrame_new_def)
  note order = CreateItem_ok_pose_order [OF ok reg]
  from order have log: "calls (snd (snd ?run)) =
        [CallClone 0,
         CallPivotTo 0 (CFrame_new (Vector3 (3 / 2) 2 (7 / 2))),
         CallSetAttribute 0 ''User'' (NumberValue 7),
         CallSetAttribute 0 ''ItemInstanceUUID'' (StringValue ''g1''),
         CallSetAttribute 0 ''ItemRegisterUUID'' (StringValue ''T1''),
         CallSetName 0 ''g1'',
         CallSetParent 0 Workspace,
         CallAddTag 0 ''ITEM'',
         CallGetComponent 0,
         CallPivotTo 0 (CFrame_new (Vector3 1 2 3))]"
    by (simp add: spawnedComponent_def alice_simps catalogue_simps snap [unfolded offGrid_def]
        candidateCFrame_def emptyWorld_def offGrid_def CollectionTag_ITEM_def)
  from order have pivot: "map_option Pivot (objects (snd (snd ?run)) 0) = Some (CFrame_new (Vector3 1 2 3))"
    by (simp add: spawnedComponent_def catalogue_simps snap candidateCFrame_def)
  from reg res log pivot show ?thesis by blast
qed

subsection \<open>Balances never go below zero\<close>

lemma PurchaseItem_Balance:
  "Balance (fst (snd (PurchaseItem deps guid user registerUUID position w))) = Balance user
   \<or> (\<exists>reg. ItemRegistry deps registerUUID = Some reg
          \<and> \<not> lacksCurrency (Currencies deps) user reg
          \<and> Balance (fst (snd (PurchaseItem deps guid user registerUUID position w))) =
              Balance (withdraw (Currencies deps) reg user))"
  by (simp add: PurchaseItem_def CreateItem_Balance split: option.split)

lemma withdraw_non_negative:
  assumes "distinct cs" and "\<not> lacksCurrency cs user reg" and "\<forall>c. 0 \<le> Balance user c"
  shows "0 \<le> Balance (withdraw cs reg user) c"
proof (cases "c \<in> set cs")
  case True
  with assms(2) have "buyPrice reg c \<le> Balance user c"
    unfolding lacksCurrency_iff by auto
  with True assms(1) show ?thesis
    by (simp add: withdraw_Balance_distinct numberSub_non_negative)
next
  case False
  with assms(3) show ?thesis by (simp add: withdraw_Balance_notin)
qed

text \<open>
  C7. If every balance of the user is non-negative before \<open>PurchaseItem\<close> or \<open>CreateItem\<close>,
  every balance is non-negative afterwards, whether the call returns \<open>Ok\<close>, returns an
  error or throws; and a purchase whose debit would take some balance below zero
  returns \<open>FORBIDDEN\<close> with the user unchanged. The members of the Currency enum are
  distinct. \<open>GetItem\<close> takes no user and yields none, so it has no balance to change.
\<close>

theorem balances_stay_non_negative:
  assumes enum: "distinct (Currencies deps)" and start: "\<forall>c. 0 \<le> Balance user c"
  shows "(\<forall>c. 0 \<le> Balance (fst (snd (PurchaseItem deps guid user register position w))) c)
       \<and> (\<forall>c. 0 \<le> Balance (fst (snd (CreateItem deps guid user register instance_opt position w))) c)
       \<and> (\<forall>reg c. ItemRegistry deps register = Some reg \<and> c \<in> set (Currencies deps)
              \<and> Balance user c - buyPrice reg c < 0
            \<longrightarrow> PurchaseItem deps guid user register position w =
                  (Returns (Result_err FORBIDDEN), user, w))"
proof (intro conjI allI impI)
  fix c
  from PurchaseItem_Balance [of deps guid user register position w]
  show "0 \<le> Balance (fst (snd (PurchaseItem deps guid user register position w))) c"
  proof
    assume "Balance (fst (snd (PurchaseItem deps guid user register position w))) = Balance user"
    with start show ?thesis by simp
  next
    assume "\<exists>reg. ItemRegistry deps register = Some reg
          \<and> \<not> lacksCurrency (Currencies deps) user reg
          \<and> Balance (fst (snd (PurchaseItem deps guid user register position w))) =
              Balance (withdraw (Currencies deps) reg user)"
    then obtain reg where "\<not> lacksCurrency (Currencies deps) user reg"
      and "Balance (fst (snd (PurchaseItem deps guid user register position w))) =
              Balance (withdraw (Currencies deps) reg user)"
      by blast
    with withdraw_non_negative [OF enum _ start, of reg c] show ?thesis by simp
  qed
next
  fix c
  from start show "0 \<le> Balance (fst (snd (CreateItem deps guid user register instance_opt position w))) c"
    by (simp add: CreateItem_Balance)
next
  fix reg c
  assume "ItemRegistry deps register = Some reg \<and> c \<in> set (Currencies deps)
              \<and> Balance user c - buyPrice reg c < 0"
  then have reg: "ItemRegistry deps register = Some reg"
    and lacks: "lacksCurrency (Currencies deps) user reg"
    unfolding lacksCurrency_iff by auto
  then show "PurchaseItem deps guid user register position w =
                  (Returns (Result_err FORBIDDEN), user, w)"
    by (simp add: PurchaseItem_def split: option.split)
qed

theorem balances_stay_non_negative_witness:
  "distinct (Currencies catalogueUnbound) \<and> (\<forall>c. 0 \<le> Balance alice c)
   \<and> fst (PurchaseItem catalogueUnbound ''g1'' alice ''T1'' None emptyWorld) =
        Throws ''component was not initialized!''
   \<and> Balance (fst (snd (PurchaseItem catalogueUnbound ''g1'' alice ''T1'' None emptyWorld))) ''GOLD'' = 50
   \<and> (\<forall>c. 0 \<le> Balance (fst (snd (PurchaseItem catalogueUnbound ''g1'' alice ''T1'' None emptyWorld))) c)
   \<and> (\<forall>c. 0 \<le> Balance (fst (snd (CreateItem catalogueUnbound ''g1'' alice ''T1'' None None emptyWorld))) c)
   \<and> PurchaseItem catalogueUnbound ''g1'' alice ''T2'' None emptyWorld =
        (Returns (Result_err FORBIDDEN), alice, emptyWorld)"
proof -
  let ?run = "PurchaseItem catalogueUnbound ''g1'' alice ''T1'' None emptyWorld"
  have enum: "distinct (Currencies catalogueUnbound)"
    by (simp add: catalogueUnbound_simps catalogue_simps)
  have start: "\<forall>c. 0 \<le> Balance alice c" by (simp add: alice_def)
  have reg1: "ItemRegistry catalogueUnbound ''T1'' = Some registerT1"
    by (simp add: catalogueUnbound_simps catalogue_simps)
  have reg2: "ItemRegistry catalogueUnbound ''T2'' = Some registerT2"
    by (simp add: catalogueUnbound_simps catalogue_simps)
  have passes: "\<not> lacksCurrency (Currencies catalogueUnbound) alice registerT1"
    using purchase_T1_passes by (simp add: catalogueUnbound_simps)
  have run: "?run = CreateItem catalogueUnbound ''g1''
                      (withdraw (Currencies catalogueUnbound) registerT1 alice) ''T1'' None None emptyWorld"
    by (rule PurchaseItem_passed [OF reg1 buyPrice_simps(6) passes])
  have thrown: "fst ?run = Throws ''component was not initialized!''"
    unfolding run by (simp add: CreateItem_found [OF reg1] Let_def catalogueUnbound_simps)
  have gold: "Balance (fst (snd ?run)) ''GOLD'' = 50"
    unfolding run
    by (simp add: CreateItem_Balance withdraw_Balance_distinct catalogueUnbound_simps
        catalogue_simps alice_simps buyPrice_simps numberSub_exact)
  note kept = balances_stay_non_negative [OF enum start]
  from kept [of "''g1''" "''T1''" None emptyWorld None]
  have b1: "\<forall>c. 0 \<le> Balance (fst (snd ?run)) c"
    and b2: "\<forall>c. 0 \<le> Balance (fst (snd (CreateItem catalogueUnbound ''g1'' alice ''T1'' None None emptyWorld))) c"
    by blast+
  have short: "ItemRegistry catalogueUnbound ''T2'' = Some registerT2
      \<and> ''GOLD'' \<in> set (Currencies catalogueUnbound)
      \<and> Balance alice ''GOLD'' - buyPrice registerT2 ''GOLD'' < 0"
    using reg2 by (simp add: catalogueUnbound_simps catalogue_simps alice_simps buyPrice_simps)
  from kept [of "''g1''" "''T2''" None emptyWorld None] short
  have rejected: "PurchaseItem catalogueUnbound ''g1'' alice ''T2'' None emptyWorld =
        (Returns (Result_err FORBIDDEN), alice, emptyWorld)"
    by blast
  from enum start thrown gold b1 b2 rejected show ?thesis by blast
qed


subsection \<open>A binder that yields no component\<close>

text \<open>
  C8. Once the register is found, if the binder yields no component for the instance
  that \<open>CreateItem\<close> has just cloned, stamped, parented and tagged, the call throws (the
  \<open>assert\<close> on line 86) instead of returning a \<open>Result\<close>. The only typed error that
  \<open>CreateItem\<close> returns is \<open>NOT_FOUND\<close>, and it returns it with the user and the data
  model untouched: nothing was cloned.
\<close>

theorem CreateItem_unbound_throws:
  "(ItemRegistry deps register = Some reg
      \<and> getComponent deps
            (snd (spawnModel reg user register (case instance_opt of None \<Rightarrow> guid | Some i \<Rightarrow> i)
                    (candidateCFrame (model reg) cframe_opt) w))
            (fst (spawnModel reg user register (case instance_opt of None \<Rightarrow> guid | Some i \<Rightarrow> i)
                    (candidateCFrame (model reg) cframe_opt) w)) = None
    \<longrightarrow> fst (CreateItem deps guid user register instance_opt cframe_opt w) =
          Throws ''component was not initialized!'')
   \<and> (\<forall>e. fst (CreateItem deps guid user register instance_opt cframe_opt w) = Returns (Result_err e)
        \<longrightarrow> e = NOT_FOUND
            \<and> snd (CreateItem deps guid user register instance_opt cframe_opt w) = (user, w))"
proof (rule conjI; intro allI impI)
  assume "ItemRegistry deps register = Some reg
      \<and> getComponent deps
            (snd (spawnModel reg user register (case instance_opt of None \<Rightarrow> guid | Some i \<Rightarrow> i)
                    (candidateCFrame (model reg) cframe_opt) w))
            (fst (spawnModel reg user register (case instance_opt of None \<Rightarrow> guid | Some i \<Rightarrow> i)
                    (candidateCFrame (model reg) cframe_opt) w)) = None"
  then show "fst (CreateItem deps guid user register instance_opt cframe_opt w) =
          Throws ''component was not initialized!''"
    by (simp add: CreateItem_def Let_def split_beta)
next
  fix e
  assume err: "fst (CreateItem deps guid user register instance_opt cframe_opt w) = Returns (Result_err e)"
  show "e = NOT_FOUND
            \<and> snd (CreateItem deps guid user register instance_opt cframe_opt w) = (user, w)"
  proof (cases "ItemRegistry deps register")
    case None
    with err show ?thesis by (simp add: CreateItem_def)
  next
    case (Some reg')
    with err show ?thesis by (simp add: CreateItem_found Let_def split: if_splits)
  qed
qed

theorem CreateItem_unbound_throws_witness:
  "ItemRegistry catalogueUnbound ''T1'' = Some registerT1
   \<and> getComponent catalogueUnbound
        (snd (spawnModel registerT1 alice ''T1'' ''g1'' (candidateCFrame (model registerT1) None) emptyWorld))
        (fst (spawnModel registerT1 alice ''T1'' ''g1'' (candidateCFrame (model registerT1) None) emptyWorld))
        = None
   \<and> fst (CreateItem catalogueUnbound ''g1'' alice ''T1'' None None emptyWorld) =
        Throws ''component was not initialized!''
   \<and> fst (CreateItem catalogueUnbound ''g1'' alice ''ghost'' None None emptyWorld) =
        Returns (Result_err NOT_FOUND)
   \<and> snd (CreateItem catalogueUnbound ''g1'' alice ''ghost'' None None emptyWorld) = (alice, emptyWorld)"
proof -
  have reg: "ItemRegistry catalogueUnbound ''T1'' = Some registerT1"
    by (simp add: catalogueUnbound_simps catalogue_simps)
  have unbound: "getComponent catalogueUnbound
        (snd (spawnModel registerT1 alice ''T1'' ''g1'' (candidateCFrame (model registerT1) None) emptyWorld))
        (fst (spawnModel registerT1 alice ''T1'' ''g1'' (candidateCFrame (model registerT1) None) emptyWorld))
        = None"
    by (simp add: getComponent_def catalogueUnbound_simps)
  have ghost: "fst (CreateItem catalogueUnbound ''g1'' alice ''ghost'' None None emptyWorld) =
        Returns (Result_err NOT_FOUND)"
    by (simp add: CreateItem_def catalogueUnbound_simps catalogue_simps)
  from CreateItem_unbound_throws [where deps = catalogueUnbound and register = "''T1''"
      and reg = registerT1 and user = alice and instance_opt = None and guid = "''g1''"
      and cframe_opt = None and w = emptyWorld]
    reg unbound
  have thrown: "fst (CreateItem catalogueUnbound ''g1'' alice ''T1'' None None emptyWorld) =
        Throws ''component was not initialized!''"
    by simp
  from CreateItem_unbound_throws [where deps = catalogueUnbound and register = "''ghost''"
      and reg = registerT1 and user = alice and instance_opt = None and guid = "''g1''"
      and cframe_opt = None and w = emptyWorld]
    ghost
  have untouched: "snd (CreateItem catalogueUnbound ''g1'' alice ''ghost'' None None emptyWorld) = (alice, emptyWorld)"
    by blast
  from reg unbound thrown ghost untouched show ?thesis by blast
qed

subsection \<open>Instance ids supplied twice\<close>

text \<open>
  C10. \<open>CreateItem\<close> does not look for the instance id it is given among the user's
  placed items. Called with an id that is already a key there, and with a binder that
  yields the component, it returns \<open>Ok\<close> with a component on a new instance; the entry
  under that key now holds the new component in place of the old one and no key is
  added; the instance of the old component stays in the data model as it was, so two
  instances carry the same id and only the newer is in the user's placed items.
\<close>

theorem CreateItem_same_instance_id_overwrites:
  assumes reg: "ItemRegistry deps register = Some reg"
    and placed: "PlacedItems user inst = Some old"
    and stored: "instance old < nextRef w"
    and bound: "hasComponent deps
                  (snd (spawnModel reg user register inst (candidateCFrame (model reg) cframe_opt) w))
                  (nextRef w)"
  shows "fst (CreateItem deps guid user register (Some inst) cframe_opt w) =
           Returns (Result_ok (spawnedComponent (nextRef w) user register inst))
       \<and> PlacedItems (fst (snd (CreateItem deps guid user register (Some inst) cframe_opt w))) =
           (PlacedItems user)(inst \<mapsto> spawnedComponent (nextRef w) user register inst)
       \<and> dom (PlacedItems (fst (snd (CreateItem deps guid user register (Some inst) cframe_opt w)))) =
           dom (PlacedItems user)
       \<and> spawnedComponent (nextRef w) user register inst \<noteq> old
       \<and> objects (snd (snd (CreateItem deps guid user register (Some inst) cframe_opt w))) (instance old) =
           objects w (instance old)
       \<and> map_option (\<lambda>m. (Name m, Attributes m ''ItemInstanceUUID''))
           (objects (snd (snd (CreateItem deps guid user register (Some inst) cframe_opt w))) (nextRef w)) =
           Some (inst, Some (StringValue inst))"
proof -
  let ?cand = "candidateCFrame (model reg) cframe_opt"
  let ?new = "spawnedComponent (nextRef w) user register inst"
  let ?w8 = "snd (spawnModel reg user register inst ?cand w)"
  have run: "CreateItem deps guid user register (Some inst) cframe_opt w =
      (Returns (Result_ok ?new), user\<lparr>PlacedItems := (PlacedItems user)(inst \<mapsto> ?new)\<rparr>,
       PivotTo (nextRef w) (AdjustCFrame deps ?cand) (logCall (CallGetComponent (nextRef w)) ?w8))"
    using bound by (simp add: CreateItem_found [OF reg] Let_def)
  have w8: "?w8 = \<lparr>objects = (objects w)(nextRef w \<mapsto> spawnedModel reg user register inst ?cand),
                   nextRef = Suc (nextRef w),
                   calls = calls w @ spawnCalls (nextRef w) user register inst ?cand\<rparr>"
    by (simp add: spawnModel_eq)
  have objs: "objects (snd (snd (CreateItem deps guid user register (Some inst) cframe_opt w))) =
      (objects w)(nextRef w \<mapsto>
         (spawnedModel reg user register inst ?cand)\<lparr>Pivot := AdjustCFrame deps ?cand\<rparr>)"
    unfolding run w8 logCall_stored PivotTo_stored by simp
  from stored have differ: "?new \<noteq> old"
    by (auto simp add: spawnedComponent_def)
  from placed have keys: "dom ((PlacedItems user)(inst \<mapsto> ?new)) = dom (PlacedItems user)"
    by auto
  from stored have old: "objects (snd (snd (CreateItem deps guid user register (Some inst) cframe_opt w)))
      (instance old) = objects w (instance old)"
    unfolding objs by simp
  have new: "map_option (\<lambda>m. (Name m, Attributes m ''ItemInstanceUUID''))
           (objects (snd (snd (CreateItem deps guid user register (Some inst) cframe_opt w))) (nextRef w)) =
           Some (inst, Some (StringValue inst))"
    unfolding objs by (simp add: spawnedModel_def)
  from differ keys old new show ?thesis
    by (simp add: run)
qed


lemma CreateItem_bound:
  assumes reg: "ItemRegistry deps register = Some reg"
    and bound: "hasComponent deps
                  (snd (spawnModel reg user register (case instance_opt of None \<Rightarrow> guid | Some i \<Rightarrow> i)
                     (candidateCFrame (model reg) cframe_opt) w))
                  (nextRef w)"
  shows "CreateItem deps guid user register instance_opt cframe_opt w =
     (Returns (Result_ok (spawnedComponent (nextRef w) user register
                 (case instance_opt of None \<Rightarrow> guid | Some i \<Rightarrow> i))),
      user\<lparr>PlacedItems := (PlacedItems user)
              ((case instance_opt of None \<Rightarrow> guid | Some i \<Rightarrow> i) \<mapsto>
                 spawnedComponent (nextRef w) user register
                   (case instance_opt of None \<Rightarrow> guid | Some i \<Rightarrow> i))\<rparr>,
      \<lparr>objects = (objects w)(nextRef w \<mapsto>
           (spawnedModel reg user register (case instance_opt of None \<Rightarrow> guid | Some i \<Rightarrow> i)
              (candidateCFrame (model reg) cframe_opt))
           \<lparr>Pivot := AdjustCFrame deps (candidateCFrame (model reg) cframe_opt)\<rparr>),
       nextRef = Suc (nextRef w),
       calls = calls w @
         spawnCalls (nextRef w) user register (case instance_opt of None \<Rightarrow> guid | Some i \<Rightarrow> i)
           (candidateCFrame (model reg) cframe_opt) @
         [CallGetComponent (nextRef w),
          CallPivotTo (nextRef w) (AdjustCFrame deps (candidateCFrame (model reg) cframe_opt))]\<rparr>)"
proof -
  let ?inst = "case instance_opt of None \<Rightarrow> guid | Some i \<Rightarrow> i"
  let ?cand = "candidateCFrame (model reg) cframe_opt"
  let ?w8 = "snd (spawnModel reg user register ?inst ?cand w)"
  have w8: "?w8 = \<lparr>objects = (objects w)(nextRef w \<mapsto> spawnedModel reg user register ?inst ?cand),
                   nextRef = Suc (nextRef w),
                   calls = calls w @ spawnCalls (nextRef w) user register ?inst ?cand\<rparr>"
    by (simp add: spawnModel_eq)
  have "PivotTo (nextRef w) (AdjustCFrame deps ?cand) (logCall (CallGetComponent (nextRef w)) ?w8) =
      \<lparr>objects = (objects w)(nextRef w \<mapsto>
           (spawnedModel reg user register ?inst ?cand)\<lparr>Pivot := AdjustCFrame deps ?cand\<rparr>),
       nextRef = Suc (nextRef w),
       calls = calls w @ spawnCalls (nextRef w) user register ?inst ?cand @
         [CallGetComponent (nextRef w), CallPivotTo (nextRef w) (AdjustCFrame deps ?cand)]\<rparr>"
    unfolding w8 logCall_stored PivotTo_stored by simp
  with bound show ?thesis
    by (simp add: CreateItem_found [OF reg] Let_def)
qed

lemma firstRun_eq:
  "firstRun =
     (Returns (Result_ok (spawnedComponent 0 alice ''T1'' ''dup'')),
      alice\<lparr>PlacedItems := [''dup'' \<mapsto> spawnedComponent 0 alice ''T1'' ''dup'']\<rparr>,
      \<lparr>objects = [0 \<mapsto> (spawnedModel registerT1 alice ''T1'' ''dup'' (CFrame_new (Vector3 0 2 0)))
                         \<lparr>Pivot := snapToGrid (CFrame_new (Vector3 0 2 0))\<rparr>],
       nextRef = Suc 0,
       calls = spawnCalls 0 alice ''T1'' ''dup'' (CFrame_new (Vector3 0 2 0)) @
         [CallGetComponent 0, CallPivotTo 0 (snapToGrid (CFrame_new (Vector3 0 2 0)))]\<rparr>)"
proof -
  have cand: "candidateCFrame (model registerT1) None = CFrame_new (Vector3 0 2 0)"
    by (simp add: candidateCFrame_def registerT1_def crate_def)
  show ?thesis
    unfolding firstRun_def
    by (simp add: CreateItem_bound [OF catalogue_simps(1) catalogue_simps(7)] cand
        catalogue_simps(6) alice_simps emptyWorld_def)
qed

theorem CreateItem_same_instance_id_overwrites_witness:
  "ItemRegistry catalogue ''T1'' = Some registerT1
   \<and> PlacedItems (fst (snd firstRun)) ''dup'' = Some (spawnedComponent 0 alice ''T1'' ''dup'')
   \<and> instance (spawnedComponent 0 alice ''T1'' ''dup'') < nextRef (snd (snd firstRun))
   \<and> fst secondRun = Returns (Result_ok (spawnedComponent 1 alice ''T1'' ''dup''))
   \<and> PlacedItems (fst (snd secondRun)) = [''dup'' \<mapsto> spawnedComponent 1 alice ''T1'' ''dup'']
   \<and> map_option Name (objects (snd (snd secondRun)) 0) = Some ''dup''
   \<and> map_option Name (objects (snd (snd secondRun)) 1) = Some ''dup''"
proof -
  let ?old = "spawnedComponent 0 alice ''T1'' ''dup''"
  have reg: "ItemRegistry catalogue ''T1'' = Some registerT1" by (simp add: catalogue_simps)
  have placed: "PlacedItems (fst (snd firstRun)) ''dup'' = Some ?old"
    by (simp add: firstRun_eq)
  have stored: "instance ?old < nextRef (snd (snd firstRun))"
    by (simp add: firstRun_eq spawnedComponent_def)
  have next1: "nextRef (snd (snd firstRun)) = 1" by (simp add: firstRun_eq)
  have same: "spawnedComponent 1 (fst (snd firstRun)) ''T1'' ''dup'' = spawnedComponent 1 alice ''T1'' ''dup''"
    by (simp add: firstRun_eq spawnedComponent_def)
  have first: "map_option Name (objects (snd (snd firstRun)) 0) = Some ''dup''"
    by (simp add: firstRun_eq spawnedModel_def)
  note again = CreateItem_same_instance_id_overwrites [OF reg placed stored catalogue_simps(7),
      of "''g2''" "Some offGrid", folded secondRun_def, unfolded next1 same]
  from again have res: "fst secondRun = Returns (Result_ok (spawnedComponent 1 alice ''T1'' ''dup''))"
    by blast
  from again have entry: "PlacedItems (fst (snd secondRun)) = [''dup'' \<mapsto> spawnedComponent 1 alice ''T1'' ''dup'']"
    by (simp add: firstRun_eq)
  from again first have obj0: "map_option Name (objects (snd (snd secondRun)) 0) = Some ''dup''"
    by (simp add: spawnedComponent_def)
  from again have obj1: "map_option Name (objects (snd (snd secondRun)) 1) = Some ''dup''"
    by auto
  from reg placed stored res entry obj0 obj1 show ?thesis by blast
qed


subsection \<open>GetItem waits without a bound\<close>

lemma WaitForChild_returns:
  assumes "WaitForChild env name t = Some y"
  shows "t \<le> fst y \<and> FindFirstChild (env (fst y)) name = Some (snd y)
       \<and> (\<forall>s. t \<le> s \<and> s < fst y \<longrightarrow> FindFirstChild (env s) name = None)"
proof (induction env name t y rule: WaitForChild.raw_induct)
  case (1 wait env name t y)
  show ?case
  proof (cases "FindFirstChild (env t) name")
    case None
    with "1.hyps" have later: "wait env name (Suc t) = Some y" by simp
    from "1.IH" [OF later] have "Suc t \<le> fst y"
      and found: "FindFirstChild (env (fst y)) name = Some (snd y)"
      and before: "\<forall>s. Suc t \<le> s \<and> s < fst y \<longrightarrow> FindFirstChild (env s) name = None"
      by blast+
    have "FindFirstChild (env s) name = None" if "t \<le> s" "s < fst y" for s
    proof (cases "s = t")
      case True
      with None show ?thesis by simp
    next
      case False
      with that before show ?thesis by simp
    qed
    with \<open>Suc t \<le> fst y\<close> found show ?thesis by simp
  next
    case (Some r)
    with "1.hyps" show ?thesis by auto
  qed
qed fact

lemma WaitForChild_never:
  assumes "\<forall>s. t \<le> s \<longrightarrow> FindFirstChild (env s) name = None"
  shows "WaitForChild env name t = None"
proof (cases "WaitForChild env name t")
  case None
  then show ?thesis .
next
  case (Some y)
  from WaitForChild_returns [OF Some] assms show ?thesis by auto
qed

lemma WaitForChild_first:
  assumes "FindFirstChild (env t') name = Some r"
    and "\<forall>s. t \<le> s \<and> s < t' \<longrightarrow> FindFirstChild (env s) name = None"
    and "t \<le> t'"
  shows "WaitForChild env name t = Some (t', r)"
  using assms(2,3)
proof (induction "t' - t" arbitrary: t)
  case 0
  then have "t = t'" by simp
  with assms(1) show ?case by (subst WaitForChild.simps) simp
next
  case (Suc n)
  then have "t < t'" by simp
  with Suc.prems have none: "FindFirstChild (env t) name = None" by simp
  from Suc.hyps(2) have "n = t' - Suc t" by simp
  moreover from Suc.prems have "\<forall>s. Suc t \<le> s \<and> s < t' \<longrightarrow> FindFirstChild (env s) name = None"
    by simp
  moreover from \<open>t < t'\<close> have "Suc t \<le> t'" by simp
  ultimately have "WaitForChild env name (Suc t) = Some (t', r)" by (rule Suc.hyps(1))
  with none show ?case by (subst WaitForChild.simps) simp
qed

lemma FindFirstChild_emptyWorld: "FindFirstChild emptyWorld name = None"
  by (simp add: FindFirstChild_def emptyWorld_def)

lemma purchasedWorld_eq:
  "purchasedWorld =
     \<lparr>objects = [0 \<mapsto> (spawnedModel registerT1 (withdraw (Currencies catalogue) registerT1 alice)
                          ''T1'' ''g1'' (CFrame_new (Vector3 0 2 0)))
                         \<lparr>Pivot := snapToGrid (CFrame_new (Vector3 0 2 0))\<rparr>],
      nextRef = Suc 0,
      calls = spawnCalls 0 (withdraw (Currencies catalogue) registerT1 alice) ''T1'' ''g1''
                (CFrame_new (Vector3 0 2 0)) @
         [CallGetComponent 0, CallPivotTo 0 (snapToGrid (CFrame_new (Vector3 0 2 0)))]\<rparr>"
proof -
  have cand: "candidateCFrame (model registerT1) None = CFrame_new (Vector3 0 2 0)"
    by (simp add: candidateCFrame_def registerT1_def crate_def)
  show ?thesis
    unfolding purchasedWorld_def
      PurchaseItem_passed [OF catalogue_simps(1) buyPrice_simps(6) purchase_T1_passes]
    by (simp add: CreateItem_bound [OF catalogue_simps(1) catalogue_simps(7)] cand
        catalogue_simps(6) emptyWorld_def)
qed

lemma FindFirstChild_purchasedWorld:
  "FindFirstChild purchasedWorld name = (if name = ''g1'' then Some 0 else None)"
  by (simp add: FindFirstChild_def purchasedWorld_eq spawnedModel_def)

lemma getComponent_purchasedWorld:
  "getComponent deps purchasedWorld 0 =
     (if hasComponent deps purchasedWorld 0 then Some (spawnedComponent 0 alice ''T1'' ''g1'') else None)"
  by (simp add: getComponent_def purchasedWorld_eq readAttributes_def spawnedModel_def
      spawnedComponent_def withdraw_UserId)

text \<open>
  C9, as the claim states it, fails: in a data model that never holds an instance named
  \<open>ghost\<close> (here the one left by a purchase under another id, at every resumption),
  \<open>GetItem\<close> does not return ``absent''; it does not return at all.
\<close>

theorem GetItem_never_created_counterexample:
  "GetItem catalogue (\<lambda>t. purchasedWorld) ''ghost'' 0 \<noteq> Some None
   \<and> GetItem catalogue (\<lambda>t. purchasedWorld) ''ghost'' 0 = None"
proof -
  have "WaitForChild (\<lambda>t. purchasedWorld) ''ghost'' 0 = None"
    by (rule WaitForChild_never) (simp add: FindFirstChild_purchasedWorld)
  then show ?thesis by (simp add: GetItem_def)
qed

text \<open>
  C9, amended. \<open>GetItem\<close> has no timeout. If from the moment of the call on no child of
  \<open>Workspace\<close> ever bears the given name, \<open>GetItem\<close> never returns. If such a child first
  exists at some resumption, \<open>GetItem\<close> returns then with what the binder yields for that
  child in the data model of that moment: ``present'' with the handle, or ``absent''
  when the binder has none. \<open>GetItem\<close> only reads the data model; it returns no state.
\<close>

theorem GetItem_waits_for_child:
  "((\<forall>s. t \<le> s \<longrightarrow> FindFirstChild (env s) uuid = None) \<longrightarrow> GetItem deps env uuid t = None)
   \<and> (\<forall>t' r. t \<le> t' \<and> FindFirstChild (env t') uuid = Some r
              \<and> (\<forall>s. t \<le> s \<and> s < t' \<longrightarrow> FindFirstChild (env s) uuid = None)
         \<longrightarrow> GetItem deps env uuid t = Some (getComponent deps (env t') r))"
proof (rule conjI; intro allI impI)
  assume "\<forall>s. t \<le> s \<longrightarrow> FindFirstChild (env s) uuid = None"
  then have "WaitForChild env uuid t = None" by (rule WaitForChild_never)
  then show "GetItem deps env uuid t = None" by (simp add: GetItem_def)
next
  fix t' r
  assume "t \<le> t' \<and> FindFirstChild (env t') uuid = Some r
              \<and> (\<forall>s. t \<le> s \<and> s < t' \<longrightarrow> FindFirstChild (env s) uuid = None)"
  then have "WaitForChild env uuid t = Some (t', r)" by (simp add: WaitForChild_first)
  then show "GetItem deps env uuid t = Some (getComponent deps (env t') r)"
    by (simp add: GetItem_def)
qed

theorem GetItem_waits_for_child_witness:
  "GetItem catalogue history ''ghost'' 0 = None
   \<and> GetItem catalogue history ''g1'' 0 = Some (Some (spawnedComponent 0 alice ''T1'' ''g1''))
   \<and> GetItem catalogueUnbound history ''g1'' 0 = Some None"
proof -
  have never: "\<forall>s. 0 \<le> s \<longrightarrow> FindFirstChild (history s) ''ghost'' = None"
    by (simp add: history_def FindFirstChild_emptyWorld FindFirstChild_purchasedWorld)
  have first: "0 \<le> (2::nat) \<and> FindFirstChild (history 2) ''g1'' = Some 0
      \<and> (\<forall>s. 0 \<le> s \<and> s < 2 \<longrightarrow> FindFirstChild (history s) ''g1'' = None)"
    by (simp add: history_def FindFirstChild_emptyWorld FindFirstChild_purchasedWorld)
  from GetItem_waits_for_child [of 0 history "''ghost''" catalogue] never
  have ghost: "GetItem catalogue history ''ghost'' 0 = None" by blast
  from GetItem_waits_for_child [of 0 history "''g1''" catalogue] first
  have "GetItem catalogue history ''g1'' 0 = Some (getComponent catalogue (history 2) 0)" by blast
  then have present: "GetItem catalogue history ''g1'' 0 = Some (Some (spawnedComponent 0 alice ''T1'' ''g1''))"
    by (simp add: history_def getComponent_purchasedWorld catalogue_simps)
  from GetItem_waits_for_child [of 0 history "''g1''" catalogueUnbound] first
  have "GetItem catalogueUnbound history ''g1'' 0 = Some (getComponent catalogueUnbound (history 2) 0)"
    by blast
  then have absent: "GetItem catalogueUnbound history ''g1'' 0 = Some None"
    by (simp add: history_def getComponent_purchasedWorld catalogueUnbound_simps)
  from ghost present absent show ?thesis by blast
qed

end
